theory Spec2Isabelle
  imports Main "HOL-Library.Multiset" "HOL-Library.AList"
begin

section \<open>Python values and exceptions\<close>

text \<open>
  The plugin \<^verbatim>\<open>beetsplug/alternatives.py\<close> carries branches for Python 2 and
  Python 3. \<^verbatim>\<open>ExternalConvert.destination\<close> calls \<^verbatim>\<open>bytes('.', 'utf-8')\<close>, which only
  Python 3 accepts, so the embedding follows the \<^verbatim>\<open>sys.version_info[0] >= 3\<close> branches
  throughout. Paths are byte strings (\<^typ>\<open>string\<close> is a list of 8-bit characters); a
  Python 3 \<^verbatim>\<open>str\<close> is represented by its UTF-8 encoding, so that equality of two
  \<^verbatim>\<open>str\<close> values is equality of their representations.
\<close>

datatype error =
  KeyError | AttributeError | UnicodeDecodeError | TypeError | IndexError | RuntimeError
  | ConfigError | OSError | FilesystemError | EvalError | EncodeError | MediaFileError

text \<open>
  A flexible attribute of a library item holds an arbitrary Python value. The
  embedding distinguishes \<^verbatim>\<open>None\<close>, a byte string (what \<^verbatim>\<open>set_path\<close> stores) and
  a text string (the representative of a value of another type).
\<close>

datatype pyval = PNone | PBytes string | PStr string

fun truthy :: "pyval \<Rightarrow> bool" where
  "truthy PNone = False"
| "truthy (PBytes b) = (b \<noteq> [])"
| "truthy (PStr s) = (s \<noteq> [])"

definition cont :: "nat \<Rightarrow> bool" where
  "cont b \<longleftrightarrow> 128 \<le> b \<and> b \<le> 191"

text \<open>Well-formed UTF-8 (the strict decoder of \<^verbatim>\<open>bytes.decode('utf-8')\<close>).\<close>

fun utf8_ok :: "nat list \<Rightarrow> bool" where
  "utf8_ok [] = True"
| "utf8_ok (b # bs) =
    (if b < 128 then utf8_ok bs
     else if 194 \<le> b \<and> b \<le> 223 then
       (case bs of c1 # r \<Rightarrow> cont c1 \<and> utf8_ok r | _ \<Rightarrow> False)
     else if 224 \<le> b \<and> b \<le> 239 then
       (case bs of
          c1 # c2 # r \<Rightarrow>
            (if b = 224 then 160 \<le> c1 \<and> c1 \<le> 191
             else if b = 237 then 128 \<le> c1 \<and> c1 \<le> 159
             else cont c1)
            \<and> cont c2 \<and> utf8_ok r
        | _ \<Rightarrow> False)
     else if 240 \<le> b \<and> b \<le> 244 then
       (case bs of
          c1 # c2 # c3 # r \<Rightarrow>
            (if b = 240 then 144 \<le> c1 \<and> c1 \<le> 191
             else if b = 244 then 128 \<le> c1 \<and> c1 \<le> 143
             else cont c1)
            \<and> cont c2 \<and> cont c3 \<and> utf8_ok r
        | _ \<Rightarrow> False)
     else False)"

definition valid_utf8 :: "string \<Rightarrow> bool" where
  "valid_utf8 b \<longleftrightarrow> utf8_ok (map of_char b)"

text \<open>
  \<^verbatim>\<open>value.decode('utf-8')\<close>: defined on byte strings only; a \<^verbatim>\<open>str\<close> has no
  such method in Python 3.
\<close>

fun decode :: "pyval \<Rightarrow> error + string" where
  "decode (PBytes b) = (if valid_utf8 b then Inr b else Inl UnicodeDecodeError)"
| "decode (PStr s) = Inl AttributeError"
| "decode PNone = Inl AttributeError"

section \<open>\<^verbatim>\<open>os.path\<close> on byte strings\<close>

definition sep :: char where
  "sep = CHR ''/''"

definition extsep :: char where
  "extsep = CHR ''.''"

text \<open>\<^verbatim>\<open>posixpath.split\<close> before the head is stripped: \<^verbatim>\<open>p[:i], p[i:]\<close> with
  \<^verbatim>\<open>i = p.rfind('/') + 1\<close>.\<close>

definition cut_last_sep :: "string \<Rightarrow> string \<times> string" where
  "cut_last_sep p =
     (rev (dropWhile (\<lambda>c. c \<noteq> sep) (rev p)), rev (takeWhile (\<lambda>c. c \<noteq> sep) (rev p)))"

definition rstrip_sep :: "string \<Rightarrow> string" where
  "rstrip_sep p = rev (dropWhile (\<lambda>c. c = sep) (rev p))"

definition basename :: "string \<Rightarrow> string" where
  "basename p = snd (cut_last_sep p)"

definition dirname :: "string \<Rightarrow> string" where
  "dirname p =
     (let head = fst (cut_last_sep p)
      in if head \<noteq> [] \<and> head \<noteq> replicate (length head) sep then rstrip_sep head else head)"

definition join :: "string \<Rightarrow> string \<Rightarrow> string" where
  "join a b =
     (if b \<noteq> [] \<and> hd b = sep then b
      else if a = [] \<or> last a = sep then a @ b
      else a @ [sep] @ b)"

text \<open>
  \<^verbatim>\<open>genericpath._splitext\<close>: the extension starts at the last dot of the last
  component, unless only dots precede it there.
\<close>

definition splitext :: "string \<Rightarrow> string \<times> string" where
  "splitext p =
     (let tail = snd (cut_last_sep p);
          stem = rev (dropWhile (\<lambda>c. c \<noteq> extsep) (rev tail))
      in if stem = [] then (p, [])
         else if list_all (\<lambda>c. c = extsep) (butlast stem) then (p, [])
         else (take (length p - length tail + length stem - 1) p,
               drop (length p - length tail + length stem - 1) p))"

section \<open>The library: items and albums\<close>

record item =
  item_id :: nat
  item_path :: string
  bitrate :: int
  format :: string
  album_id :: "nat option"
  flex :: "string \<rightharpoonup> pyval"

record album =
  alb_id :: nat
  artpath :: "string option"

section \<open>The file system\<close>

text \<open>
  A regular file has a modification time and a content; a symbolic link has a
  target. Nodes are keyed by their resolved path, a list of components under the
  root. The root directory is implicit.
\<close>

datatype node = File nat string | Dir | Symlink string

type_synonym key = "string list"

fun split_sep :: "string \<Rightarrow> string list" where
  "split_sep [] = [[]]"
| "split_sep (c # cs) =
     (if c = sep then [] # split_sep cs
      else (case split_sep cs of [] \<Rightarrow> [[c]] | w # ws \<Rightarrow> (c # w) # ws))"

definition norm_step :: "key \<Rightarrow> string \<Rightarrow> key" where
  "norm_step acc nm =
     (if nm = [] \<or> nm = ''.'' then acc
      else if nm = ''..'' then butlast acc
      else acc @ [nm])"

definition resolve :: "string \<Rightarrow> key" where
  "resolve p = foldl norm_step [] (split_sep p)"

definition lookup :: "(key \<times> node) list \<Rightarrow> key \<Rightarrow> node option" where
  "lookup ns k = (if k = [] then Some Dir else map_of ns k)"

text \<open>Following the symbolic links of the last component, at most \<open>n\<close> of them.\<close>

fun realkey :: "nat \<Rightarrow> (key \<times> node) list \<Rightarrow> string \<Rightarrow> key option" where
  "realkey 0 ns p = None"
| "realkey (Suc n) ns p =
     (if p = [] then None
      else case lookup ns (resolve p) of
             None \<Rightarrow> None
           | Some (Symlink t) \<Rightarrow> realkey n ns t
           | Some _ \<Rightarrow> Some (resolve p))"

definition maxlinks :: nat where
  "maxlinks = 40"

definition stat :: "(key \<times> node) list \<Rightarrow> string \<Rightarrow> node option" where
  "stat ns p = (case realkey maxlinks ns p of None \<Rightarrow> None | Some k \<Rightarrow> lookup ns k)"

definition lstat :: "(key \<times> node) list \<Rightarrow> string \<Rightarrow> node option" where
  "lstat ns p = (if p = [] then None else lookup ns (resolve p))"

definition exists :: "(key \<times> node) list \<Rightarrow> string \<Rightarrow> bool" where
  "exists ns p \<longleftrightarrow> stat ns p \<noteq> None"

definition isfile :: "(key \<times> node) list \<Rightarrow> string \<Rightarrow> bool" where
  "isfile ns p \<longleftrightarrow> (case stat ns p of Some (File m d) \<Rightarrow> True | _ \<Rightarrow> False)"

definition isdir :: "(key \<times> node) list \<Rightarrow> string \<Rightarrow> bool" where
  "isdir ns p \<longleftrightarrow> (case stat ns p of Some Dir \<Rightarrow> True | _ \<Rightarrow> False)"

text \<open>
  \<^verbatim>\<open>os.path.getmtime\<close>. Directories carry no modification time here: the paths the
  plugin asks about name regular files (or links to them) or nothing.
\<close>

definition getmtime :: "(key \<times> node) list \<Rightarrow> string \<Rightarrow> error + nat" where
  "getmtime ns p = (case stat ns p of Some (File m d) \<Rightarrow> Inr m | _ \<Rightarrow> Inl OSError)"

section \<open>Collections\<close>

text \<open>
  \<^verbatim>\<open>AlternativesPlugin.alternative\<close> builds one of three classes; \<open>kind\<close> records
  which, and the methods below dispatch on it the way the class hierarchy does.
  The host's collaborators are fields of the collection: \<open>item_destination\<close> is
  \<^verbatim>\<open>Item.destination(basedir, path_formats)\<close>, \<open>query_item\<close> and \<open>query_album\<close> are
  \<^verbatim>\<open>self.query.match\<close> on an item and on an album, \<open>convert_when\<close> is what
  \<^verbatim>\<open>eval(self.convert_when)\<close> computes from \<^verbatim>\<open>bitrate\<close>, \<^verbatim>\<open>maxbr\<close>, \<^verbatim>\<open>fmt\<close> and
  \<^verbatim>\<open>allowed_fmt\<close> (its truth value, or the exception it raises), \<open>encode\<close> is the
  converter of the convert plugin (the content it produces, or nothing when it
  fails), \<open>embed_art\<close> and \<open>write_tags\<close> are the tag writers of the media library.
\<close>

datatype kind = External | ExternalConvert | SymlinkView

datatype action = ADD | REMOVE | WRITE | MOVE | NOOP

record config =
  kind :: kind
  coll_name :: string
  directory :: string
  query_item :: "item \<Rightarrow> bool"
  query_album :: "album \<Rightarrow> bool"
  item_destination :: "string \<Rightarrow> item \<Rightarrow> string"
  convert_when :: "int \<Rightarrow> int \<Rightarrow> string \<Rightarrow> string list \<Rightarrow> error + bool"
  other_ext :: "string list"
  copy_albumart :: bool
  removable :: bool
  formats :: "string list"
  ext :: string
  convert_cmd :: string
  maxbr :: int
  embed :: bool
  encode :: "string \<Rightarrow> string \<Rightarrow> string option"
  embed_art :: "string \<Rightarrow> string \<Rightarrow> string"
  write_tags :: "item \<Rightarrow> string \<Rightarrow> string option"

definition path_key :: "config \<Rightarrow> string" where
  "path_key cfg = ''alt.'' @ coll_name cfg"

text \<open>\<^verbatim>\<open>External.get_path\<close>: only a missing key is caught.\<close>

definition get_path :: "config \<Rightarrow> item \<Rightarrow> pyval" where
  "get_path cfg it = (case flex it (path_key cfg) of None \<Rightarrow> PNone | Some v \<Rightarrow> v)"

definition set_path :: "config \<Rightarrow> item \<Rightarrow> string \<Rightarrow> item" where
  "set_path cfg it p = it\<lparr>flex := (flex it)(path_key cfg \<mapsto> PBytes p)\<rparr>"

definition lower_char :: "char \<Rightarrow> char" where
  "lower_char c =
     (if 65 \<le> (of_char c :: nat) \<and> (of_char c :: nat) \<le> 90
      then char_of ((of_char c :: nat) + 32) else c)"

definition lower :: "string \<Rightarrow> string" where
  "lower s = map lower_char s"

definition should_transcode :: "config \<Rightarrow> item \<Rightarrow> error + bool" where
  "should_transcode cfg it =
     convert_when cfg (bitrate it) (maxbr cfg) (lower (format it)) (formats cfg)"

definition External_destination :: "config \<Rightarrow> item \<Rightarrow> string" where
  "External_destination cfg it = item_destination cfg (directory cfg) it"

definition ExternalConvert_destination :: "config \<Rightarrow> item \<Rightarrow> error + string" where
  "ExternalConvert_destination cfg it =
     (let dest = External_destination cfg it
      in case should_transcode cfg it of
           Inl e \<Rightarrow> Inl e
         | Inr True \<Rightarrow> Inr (fst (splitext dest) @ ''.'' @ ext cfg)
         | Inr False \<Rightarrow> Inr dest)"

definition destination :: "config \<Rightarrow> item \<Rightarrow> error + string" where
  "destination cfg it =
     (case kind cfg of
        ExternalConvert \<Rightarrow> ExternalConvert_destination cfg it
      | _ \<Rightarrow> Inr (External_destination cfg it))"

section \<open>Classification\<close>

text \<open>
  \<^verbatim>\<open>External.matched_item_action\<close>. The recorded value is decoded unless it is
  \<^verbatim>\<open>None\<close>; the destination is decoded; both \<^verbatim>\<open>getmtime\<close> calls may raise.
\<close>

definition matched_item_action ::
  "config \<Rightarrow> (key \<times> node) list \<Rightarrow> item \<Rightarrow> error + (item \<times> action)" where
  "matched_item_action cfg ns it =
     (case (case get_path cfg it of PNone \<Rightarrow> Inr None | v \<Rightarrow> map_sum id Some (decode v)) of
        Inl e \<Rightarrow> Inl e
      | Inr None \<Rightarrow> Inr (it, ADD)
      | Inr (Some path) \<Rightarrow>
          if path \<noteq> [] \<and> isfile ns path then
            (case destination cfg it of
               Inl e \<Rightarrow> Inl e
             | Inr dest0 \<Rightarrow>
                 (case decode (PBytes dest0) of
                    Inl e \<Rightarrow> Inl e
                  | Inr dest \<Rightarrow>
                      if path \<noteq> dest then Inr (it, MOVE)
                      else (case getmtime ns dest of
                              Inl e \<Rightarrow> Inl e
                            | Inr ma \<Rightarrow>
                                (case getmtime ns (item_path it) of
                                   Inl e \<Rightarrow> Inl e
                                 | Inr mp \<Rightarrow>
                                     if ma < mp then Inr (it, WRITE) else Inr (it, NOOP)))))
          else Inr (it, ADD))"

text \<open>The first loop of \<^verbatim>\<open>External.items_action\<close>: the ids of the items of every
  album the query matches.\<close>

definition album_items :: "item list \<Rightarrow> album \<Rightarrow> item list" where
  "album_items its a = filter (\<lambda>i. album_id i = Some (alb_id a)) its"

definition matched_ids :: "config \<Rightarrow> album list \<Rightarrow> item list \<Rightarrow> nat list" where
  "matched_ids cfg albs its =
     concat (map (\<lambda>a. if query_album cfg a then map item_id (album_items its a) else []) albs)"

definition is_matched :: "config \<Rightarrow> nat list \<Rightarrow> item \<Rightarrow> bool" where
  "is_matched cfg mids it \<longleftrightarrow> item_id it \<in> set mids \<or> query_item cfg it"

text \<open>The body of its second loop: what one item makes the generator yield
  (\<open>None\<close>: nothing), or the exception that ends the generator.\<close>

definition item_action ::
  "config \<Rightarrow> (key \<times> node) list \<Rightarrow> nat list \<Rightarrow> item \<Rightarrow> error + (item \<times> action) option" where
  "item_action cfg ns mids it =
     (if is_matched cfg mids it then map_sum id Some (matched_item_action cfg ns it)
      else if truthy (get_path cfg it) then Inr (Some (it, REMOVE))
      else Inr None)"

text \<open>The generator run to its end against one state of the file system: the
  pairs it yields and the exception that stopped it, if any.\<close>

fun items_action_loop ::
  "config \<Rightarrow> (key \<times> node) list \<Rightarrow> nat list \<Rightarrow> item list
     \<Rightarrow> (item \<times> action) list \<times> error option" where
  "items_action_loop cfg ns mids [] = ([], None)"
| "items_action_loop cfg ns mids (it # its) =
     (case item_action cfg ns mids it of
        Inl e \<Rightarrow> ([], Some e)
      | Inr None \<Rightarrow> items_action_loop cfg ns mids its
      | Inr (Some ia) \<Rightarrow>
          (ia # fst (items_action_loop cfg ns mids its),
           snd (items_action_loop cfg ns mids its)))"

definition items_action ::
  "config \<Rightarrow> (key \<times> node) list \<Rightarrow> album list \<Rightarrow> item list
     \<Rightarrow> (item \<times> action) list \<times> error option" where
  "items_action cfg ns albs its = items_action_loop cfg ns (matched_ids cfg albs its) its"

section \<open>The world the plugin runs in\<close>

text \<open>
  The state one run reads and writes: the file system with its clock, the library
  database (what \<^verbatim>\<open>item.store()\<close> writes and the next run reads), and the lines
  \<^verbatim>\<open>print_\<close> has written.
\<close>

record world =
  nodes :: "(key \<times> node) list"
  clock :: nat
  lib_items :: "item list"
  lib_albums :: "album list"
  out :: "string list"

subsection \<open>Primitives of the host\<close>

text \<open>
  Modelled from the spec: the functions of \<^verbatim>\<open>os\<close>, \<^verbatim>\<open>os.path\<close>, \<^verbatim>\<open>beets.util\<close> and of
  the library's \<^verbatim>\<open>Item\<close> class are not part of the plugin's source. Section 6 of the
  specification names them (copy with overwrite, move, removeFile,
  createDirectories of a path's parent, pruneEmptyAncestors with a stop directory,
  createSymlink, listDirectory, getModTime, persist an item); each is given here
  the behaviour the host documents for it. A file that is written gets the
  current clock value as its modification time, and the clock advances.
\<close>

definition children :: "(key \<times> node) list \<Rightarrow> key \<Rightarrow> string list" where
  "children ns k = map (\<lambda>e. last (fst e)) (filter (\<lambda>e. fst e \<noteq> [] \<and> butlast (fst e) = k) ns)"

definition listdir :: "(key \<times> node) list \<Rightarrow> string \<Rightarrow> error + string list" where
  "listdir ns p =
     (case realkey maxlinks ns p of
        None \<Rightarrow> Inl OSError
      | Some k \<Rightarrow> (case lookup ns k of Some Dir \<Rightarrow> Inr (children ns k) | _ \<Rightarrow> Inl OSError))"

definition samefile :: "(key \<times> node) list \<Rightarrow> string \<Rightarrow> string \<Rightarrow> bool" where
  "samefile ns a b \<longleftrightarrow>
     realkey maxlinks ns a \<noteq> None \<and> realkey maxlinks ns a = realkey maxlinks ns b"

text \<open>\<^verbatim>\<open>util.remove(path)\<close> with \<^verbatim>\<open>soft=True\<close>: nothing happens when the path does
  not exist; a directory cannot be removed.\<close>

definition util_remove :: "string \<Rightarrow> world \<Rightarrow> (error + unit) \<times> world" where
  "util_remove p w =
     (if \<not> exists (nodes w) p then (Inr (), w)
      else case lstat (nodes w) p of
             Some Dir \<Rightarrow> (Inl FilesystemError, w)
           | _ \<Rightarrow> (Inr (), w\<lparr>nodes := AList.delete (resolve p) (nodes w)\<rparr>))"

definition proper_prefixes :: "key \<Rightarrow> key list" where
  "proper_prefixes k = map (\<lambda>n. take n k) [0..<length k]"

fun mkdirs :: "key list \<Rightarrow> (key \<times> node) list \<Rightarrow> error + (key \<times> node) list" where
  "mkdirs [] ns = Inr ns"
| "mkdirs (k # ks) ns =
     (case lookup ns k of
        Some Dir \<Rightarrow> mkdirs ks ns
      | None \<Rightarrow> mkdirs ks (AList.update k Dir ns)
      | Some _ \<Rightarrow> Inl FilesystemError)"

text \<open>\<^verbatim>\<open>util.mkdirall(path)\<close>: every ancestor directory of the path is made.\<close>

definition util_mkdirall :: "string \<Rightarrow> world \<Rightarrow> (error + unit) \<times> world" where
  "util_mkdirall p w =
     (case mkdirs (proper_prefixes (resolve p)) (nodes w) of
        Inl e \<Rightarrow> (Inl e, w)
      | Inr ns \<Rightarrow> (Inr (), w\<lparr>nodes := ns\<rparr>))"

text \<open>Where a write through the path lands: symbolic links at the last component
  are followed, the last one may dangle.\<close>

fun write_key :: "nat \<Rightarrow> (key \<times> node) list \<Rightarrow> string \<Rightarrow> key option" where
  "write_key 0 ns p = None"
| "write_key (Suc n) ns p =
     (if p = [] then None
      else case lookup ns (resolve p) of
             Some (Symlink t) \<Rightarrow> write_key n ns t
           | _ \<Rightarrow> Some (resolve p))"

definition write_file :: "string \<Rightarrow> string \<Rightarrow> world \<Rightarrow> (error + unit) \<times> world" where
  "write_file p d w =
     (case write_key maxlinks (nodes w) p of
        None \<Rightarrow> (Inl OSError, w)
      | Some k \<Rightarrow>
          if k = [] \<or> lookup (nodes w) k = Some Dir \<or> lookup (nodes w) (butlast k) \<noteq> Some Dir
          then (Inl OSError, w)
          else (Inr (), w\<lparr>nodes := AList.update k (File (clock w) d) (nodes w),
                          clock := Suc (clock w)\<rparr>))"

text \<open>\<^verbatim>\<open>util.copy(path, dest, replace=True)\<close>.\<close>

definition util_copy :: "string \<Rightarrow> string \<Rightarrow> world \<Rightarrow> (error + unit) \<times> world" where
  "util_copy src dest w =
     (if samefile (nodes w) src dest then (Inr (), w)
      else case stat (nodes w) src of
             Some (File m d) \<Rightarrow>
               (case write_file dest d w of
                  (Inl e, w') \<Rightarrow> (Inl FilesystemError, w')
                | r \<Rightarrow> r)
           | _ \<Rightarrow> (Inl FilesystemError, w))"

text \<open>\<^verbatim>\<open>util.move(path, dest)\<close>: refuses an existing destination; the entry keeps its
  modification time. Only files and links are moved by the plugin.\<close>

definition util_move :: "string \<Rightarrow> string \<Rightarrow> world \<Rightarrow> (error + unit) \<times> world" where
  "util_move src dest w =
     (if samefile (nodes w) src dest then (Inr (), w)
      else if exists (nodes w) dest then (Inl FilesystemError, w)
      else case lstat (nodes w) src of
             None \<Rightarrow> (Inl FilesystemError, w)
           | Some Dir \<Rightarrow> (Inl FilesystemError, w)
           | Some n \<Rightarrow>
               if dest = [] \<or> resolve dest = [] \<or> lookup (nodes w) (butlast (resolve dest)) \<noteq> Some Dir
               then (Inl FilesystemError, w)
               else (Inr (), w\<lparr>nodes := AList.update (resolve dest) n
                                          (AList.delete (resolve src) (nodes w))\<rparr>))"

text \<open>\<^verbatim>\<open>util.prune_dirs(path, root)\<close>: the path and its ancestors strictly below the
  root, deepest first; a missing one is skipped, an empty directory is removed,
  and the walk ends at the first directory that is not empty. Nothing is pruned
  when the root is not a proper ancestor of the path.\<close>

fun prune_loop :: "key list \<Rightarrow> (key \<times> node) list \<Rightarrow> error + (key \<times> node) list" where
  "prune_loop [] ns = Inr ns"
| "prune_loop (k # ks) ns =
     (case lookup ns k of
        None \<Rightarrow> prune_loop ks ns
      | Some Dir \<Rightarrow> if children ns k = [] then prune_loop ks (AList.delete k ns) else Inr ns
      | Some (File m d) \<Rightarrow> Inl OSError
      | Some (Symlink t) \<Rightarrow>
          (case stat ns t of
             None \<Rightarrow> prune_loop ks ns
           | Some Dir \<Rightarrow> Inr ns
           | Some _ \<Rightarrow> Inl OSError))"

definition prune_candidates :: "key \<Rightarrow> key \<Rightarrow> key list" where
  "prune_candidates kp kr =
     (if length kr < length kp \<and> take (length kr) kp = kr
      then map (\<lambda>n. take n kp) (rev [Suc (length kr)..<Suc (length kp)])
      else [])"

definition util_prune_dirs :: "string \<Rightarrow> string \<Rightarrow> world \<Rightarrow> (error + unit) \<times> world" where
  "util_prune_dirs p root w =
     (case prune_loop (prune_candidates (resolve p) (resolve root)) (nodes w) of
        Inl e \<Rightarrow> (Inl e, w)
      | Inr ns \<Rightarrow> (Inr (), w\<lparr>nodes := ns\<rparr>))"

text \<open>\<^verbatim>\<open>os.symlink(target, link)\<close>.\<close>

definition os_symlink :: "string \<Rightarrow> string \<Rightarrow> world \<Rightarrow> (error + unit) \<times> world" where
  "os_symlink target link w =
     (if link = [] \<or> resolve link = [] \<or> lstat (nodes w) link \<noteq> None
         \<or> lookup (nodes w) (butlast (resolve link)) \<noteq> Some Dir
      then (Inl OSError, w)
      else (Inr (), w\<lparr>nodes := AList.update (resolve link) (Symlink target) (nodes w)\<rparr>))"

text \<open>\<^verbatim>\<open>item.store()\<close>: the in-memory item replaces its row in the database.\<close>

definition store :: "item \<Rightarrow> world \<Rightarrow> world" where
  "store it w =
     w\<lparr>lib_items := map (\<lambda>x. if item_id x = item_id it then it else x) (lib_items w)\<rparr>"

definition print_line :: "string \<Rightarrow> world \<Rightarrow> world" where
  "print_line line w = w\<lparr>out := out w @ [line]\<rparr>"

text \<open>\<^verbatim>\<open>item.write(path=p)\<close>: the tags of the item are written into the file at the
  path, which fails when there is no readable media file.\<close>

definition item_write :: "config \<Rightarrow> item \<Rightarrow> string \<Rightarrow> world \<Rightarrow> (error + unit) \<times> world" where
  "item_write cfg it p w =
     (case (realkey maxlinks (nodes w) p, stat (nodes w) p) of
        (Some k, Some (File m d)) \<Rightarrow>
          (case write_tags cfg it d of
             None \<Rightarrow> (Inl MediaFileError, w)
           | Some d' \<Rightarrow>
               (Inr (), w\<lparr>nodes := AList.update k (File (clock w) d') (nodes w),
                            clock := Suc (clock w)\<rparr>))
      | _ \<Rightarrow> (Inl MediaFileError, w))"

text \<open>\<^verbatim>\<open>self._encode(command, source, dest)\<close> of the convert plugin.\<close>

definition run_encode :: "config \<Rightarrow> string \<Rightarrow> string \<Rightarrow> world \<Rightarrow> (error + unit) \<times> world" where
  "run_encode cfg src dest w =
     (case stat (nodes w) src of
        Some (File m d) \<Rightarrow>
          (case encode cfg (convert_cmd cfg) d of
             None \<Rightarrow> (Inl EncodeError, w)
           | Some d' \<Rightarrow>
               (case write_file dest d' w of
                  (Inl e, w') \<Rightarrow> (Inl EncodeError, w')
                | r \<Rightarrow> r))
      | _ \<Rightarrow> (Inl EncodeError, w))"

definition get_album :: "world \<Rightarrow> item \<Rightarrow> album option" where
  "get_album w it =
     (case album_id it of
        None \<Rightarrow> None
      | Some a \<Rightarrow> find (\<lambda>x. alb_id x = a) (lib_albums w))"

section \<open>Materialisation jobs\<close>

text \<open>\<^verbatim>\<open>External.converter\<close>: the job of a plain collection.\<close>

definition External_convert ::
  "config \<Rightarrow> item \<Rightarrow> world \<Rightarrow> (error + item \<times> string) \<times> world" where
  "External_convert cfg it w =
     (case destination cfg it of
        Inl e \<Rightarrow> (Inl e, w)
      | Inr dest \<Rightarrow>
          (case util_mkdirall dest w of
             (Inl e, w1) \<Rightarrow> (Inl e, w1)
           | (Inr u, w1) \<Rightarrow>
               (case util_copy (item_path it) dest w1 of
                  (Inl e, w2) \<Rightarrow> (Inl e, w2)
                | (Inr u, w2) \<Rightarrow> (Inr (it, dest), w2))))"

text \<open>\<^verbatim>\<open>copy_art\<close> inside \<^verbatim>\<open>ExternalConvert.converter\<close>. The album is not tested
  for \<^verbatim>\<open>None\<close> before its \<^verbatim>\<open>artpath\<close> is read.\<close>

definition copy_art :: "config \<Rightarrow> item \<Rightarrow> string \<Rightarrow> world \<Rightarrow> (error + unit) \<times> world" where
  "copy_art cfg it p w =
     (case get_album w it of
        None \<Rightarrow> (Inl AttributeError, w)
      | Some alb \<Rightarrow>
          (case artpath alb of
             None \<Rightarrow> (Inr (), w)
           | Some ap \<Rightarrow>
               if ap = [] then (Inr (), w)
               else (case decode (PBytes (snd (splitext ap))) of
                       Inl e \<Rightarrow> (Inl e, w)
                     | Inr x \<Rightarrow>
                         if x \<in> set (other_ext cfg)
                         then util_copy ap (join (dirname p) (basename ap)) w
                         else (Inr (), w))))"

text \<open>\<^verbatim>\<open>embed_art\<close> inside \<^verbatim>\<open>ExternalConvert.converter\<close>: the host's
  \<^verbatim>\<open>art.embed_item\<close> logs its failures and does not raise.\<close>

definition embed_art_job :: "config \<Rightarrow> item \<Rightarrow> string \<Rightarrow> world \<Rightarrow> world" where
  "embed_art_job cfg it p w =
     (case get_album w it of
        None \<Rightarrow> w
      | Some alb \<Rightarrow>
          (case artpath alb of
             None \<Rightarrow> w
           | Some ap \<Rightarrow>
               if ap = [] then w
               else (case (stat (nodes w) ap, realkey maxlinks (nodes w) p, stat (nodes w) p) of
                       (Some (File ma da), Some k, Some (File m d)) \<Rightarrow>
                         w\<lparr>nodes := AList.update k (File (clock w) (embed_art cfg da d)) (nodes w),
                           clock := Suc (clock w)\<rparr>
                     | _ \<Rightarrow> w)))"

text \<open>\<^verbatim>\<open>ExternalConvert.converter\<close>: the job of a transcoding collection.\<close>

definition ExternalConvert_convert ::
  "config \<Rightarrow> item \<Rightarrow> world \<Rightarrow> (error + item \<times> string) \<times> world" where
  "ExternalConvert_convert cfg it w =
     (case destination cfg it of
        Inl e \<Rightarrow> (Inl e, w)
      | Inr dest \<Rightarrow>
          (case util_mkdirall dest w of
             (Inl e, w1) \<Rightarrow> (Inl e, w1)
           | (Inr u, w1) \<Rightarrow>
               (case should_transcode cfg it of
                  Inl e \<Rightarrow> (Inl e, w1)
                | Inr tr \<Rightarrow>
                    (case (if tr
                           then (case run_encode cfg (item_path it) dest w1 of
                                   (Inl e, w2) \<Rightarrow> (Inl e, w2)
                                 | (Inr u, w2) \<Rightarrow>
                                     (Inr (), if embed cfg then embed_art_job cfg it dest w2 else w2))
                           else util_copy (item_path it) dest w1) of
                       (Inl e, w3) \<Rightarrow> (Inl e, w3)
                     | (Inr u, w3) \<Rightarrow>
                         (case (if copy_albumart cfg then copy_art cfg it dest w3 else (Inr (), w3)) of
                            (Inl e, w4) \<Rightarrow> (Inl e, w4)
                          | (Inr u, w4) \<Rightarrow> (Inr (it, dest), w4))))))"

definition convert_job ::
  "config \<Rightarrow> item \<Rightarrow> world \<Rightarrow> (error + item \<times> string) \<times> world" where
  "convert_job cfg it w =
     (case kind cfg of
        ExternalConvert \<Rightarrow> ExternalConvert_convert cfg it w
      | _ \<Rightarrow> External_convert cfg it w)"

section \<open>The worker pool\<close>

text \<open>
  \<^verbatim>\<open>Worker\<close> is a thread pool with the set \<^verbatim>\<open>_tasks\<close> of the futures it has handed
  out. A future is represented by the item it was submitted for; the list keeps
  one entry per call of \<^verbatim>\<open>submit\<close>. \<open>closed\<close> is the pool's shutdown flag.
  The threads are not modelled: a job is taken to run after the main loop, and the
  jobs complete in an order that the schedule \<open>sched\<close> picks. Every job runs
  whether or not its result is read, as the pool's threads do.
\<close>

record worker =
  tasks :: "item list"
  closed :: bool

definition new_worker :: worker where
  "new_worker = \<lparr>tasks = [], closed = False\<rparr>"

definition submit :: "worker \<Rightarrow> item \<Rightarrow> error + worker" where
  "submit wk it = (if closed wk then Inl RuntimeError else Inr (wk\<lparr>tasks := tasks wk @ [it]\<rparr>))"

definition shutdown :: "worker \<Rightarrow> worker" where
  "shutdown wk = wk\<lparr>closed := True\<rparr>"

text \<open>The order in which the futures complete: each schedule entry places one
  more future among those behind it.\<close>

fun completion_order :: "nat list \<Rightarrow> 'a list \<Rightarrow> 'a list" where
  "completion_order cs [] = []"
| "completion_order cs (x # xs) =
     (let ys = completion_order (tl cs) xs;
          i = (case cs of [] \<Rightarrow> 0 | c # r \<Rightarrow> c mod Suc (length ys))
      in take i ys @ x # drop i ys)"

fun run_jobs ::
  "config \<Rightarrow> item list \<Rightarrow> world \<Rightarrow> (error + item \<times> string) list \<times> world" where
  "run_jobs cfg [] w = ([], w)"
| "run_jobs cfg (it # its) w =
     (case convert_job cfg it w of
        (r, w1) \<Rightarrow> (case run_jobs cfg its w1 of (rs, w2) \<Rightarrow> (r # rs, w2)))"

text \<open>
  \<^verbatim>\<open>for f in futures.as_completed(self._tasks): self._tasks.remove(f); yield f.result()\<close>.
  The generator yields the results in completion order; the future is removed
  from \<^verbatim>\<open>_tasks\<close> before \<^verbatim>\<open>f.result()\<close> re-raises what its job raised, and that
  exception ends the generator.
\<close>

fun drain ::
  "(item \<times> (error + item \<times> string)) list
     \<Rightarrow> (item \<times> string) list \<times> error option \<times> item list" where
  "drain [] = ([], None, [])"
| "drain ((t, Inl e) # rest) = ([], Some e, map fst rest)"
| "drain ((t, Inr r) # rest) =
     (case drain rest of (ys, err, left) \<Rightarrow> (r # ys, err, left))"

definition as_completed ::
  "config \<Rightarrow> nat list \<Rightarrow> worker \<Rightarrow> world
     \<Rightarrow> ((item \<times> string) list \<times> error option) \<times> worker \<times> world" where
  "as_completed cfg sched wk w =
     (let order = completion_order sched (tasks wk)
      in case run_jobs cfg order w of
           (rs, w1) \<Rightarrow>
             (case drain (zip order rs) of
                (ys, err, left) \<Rightarrow> ((ys, err), wk\<lparr>tasks := left\<rparr>, w1)))"

section \<open>Applying the actions\<close>

text \<open>How a recorded value is shown by \<^verbatim>\<open>displayable_path\<close>, and how the host's
  path functions take it: they accept byte strings and text strings alike.\<close>

fun display :: "pyval \<Rightarrow> string" where
  "display PNone = ''None''"
| "display (PBytes b) = b"
| "display (PStr s) = s"

fun as_path :: "pyval \<Rightarrow> error + string" where
  "as_path PNone = Inl TypeError"
| "as_path (PBytes b) = Inr b"
| "as_path (PStr s) = Inr s"

text \<open>The first loop of \<^verbatim>\<open>External.remove_albumart\<close>: \<^verbatim>\<open>False\<close> at the first entry
  whose extension is not a companion-art extension. A name listed from a text
  path is a text string, which has no \<^verbatim>\<open>decode\<close>.\<close>

fun all_art :: "config \<Rightarrow> bool \<Rightarrow> string list \<Rightarrow> error + bool" where
  "all_art cfg is_bytes [] = Inr True"
| "all_art cfg is_bytes (f # fs) =
     (case decode (if is_bytes then PBytes (snd (splitext f)) else PStr (snd (splitext f))) of
        Inl e \<Rightarrow> Inl e
      | Inr x \<Rightarrow> if x \<notin> set (other_ext cfg) then Inr False else all_art cfg is_bytes fs)"

text \<open>Its second loop.\<close>

fun remove_all :: "string \<Rightarrow> string list \<Rightarrow> world \<Rightarrow> (error + unit) \<times> world" where
  "remove_all d [] w = (Inr (), w)"
| "remove_all d (f # fs) w =
     (case util_remove (join d f) w of
        (Inl e, w1) \<Rightarrow> (Inl e, w1)
      | (Inr u, w1) \<Rightarrow> remove_all d fs w1)"

definition remove_albumart :: "config \<Rightarrow> pyval \<Rightarrow> world \<Rightarrow> (error + bool) \<times> world" where
  "remove_albumart cfg v w =
     (case as_path v of
        Inl e \<Rightarrow> (Inl e, w)
      | Inr p \<Rightarrow>
          (case listdir (nodes w) (dirname p) of
             Inl e \<Rightarrow> (Inl e, w)
           | Inr files \<Rightarrow>
               (case all_art cfg (case v of PBytes b \<Rightarrow> True | _ \<Rightarrow> False) files of
                  Inl e \<Rightarrow> (Inl e, w)
                | Inr False \<Rightarrow> (Inr False, w)
                | Inr True \<Rightarrow>
                    (case remove_all (dirname p) files w of
                       (Inl e, w1) \<Rightarrow> (Inl e, w1)
                     | (Inr u, w1) \<Rightarrow> (Inr True, w1)))))"

text \<open>\<^verbatim>\<open>External.remove_item\<close>: the item comes back without the attribute.\<close>

definition remove_item :: "config \<Rightarrow> item \<Rightarrow> world \<Rightarrow> (error + item) \<times> world" where
  "remove_item cfg it w =
     (case flex it (path_key cfg) of
        None \<Rightarrow> (Inl KeyError, w)
      | Some v \<Rightarrow>
          (case as_path v of
             Inl e \<Rightarrow> (Inl e, w)
           | Inr p \<Rightarrow>
               (case util_remove p w of
                  (Inl e, w1) \<Rightarrow> (Inl e, w1)
                | (Inr u, w1) \<Rightarrow>
                    (case remove_albumart cfg v w1 of
                       (Inl e, w2) \<Rightarrow> (Inl e, w2)
                     | (Inr b, w2) \<Rightarrow>
                         (case util_prune_dirs p (directory cfg) w2 of
                            (Inl e, w3) \<Rightarrow> (Inl e, w3)
                          | (Inr u, w3) \<Rightarrow>
                              (Inr (it\<lparr>flex := (flex it)(path_key cfg := None)\<rparr>), w3))))))"

text \<open>The body of the loop of \<^verbatim>\<open>External.update\<close> for one yielded pair. The
  destination is computed before the action is looked at.\<close>

definition External_apply ::
  "config \<Rightarrow> item \<Rightarrow> action \<Rightarrow> worker \<Rightarrow> world \<Rightarrow> (error + worker) \<times> world" where
  "External_apply cfg it act wk w =
     (case destination cfg it of
        Inl e \<Rightarrow> (Inl e, w)
      | Inr dest \<Rightarrow>
          (let path = get_path cfg it in
           case act of
             MOVE \<Rightarrow>
               (case util_mkdirall dest (print_line (''>'' @ display path @ '' -> '' @ dest) w) of
                  (Inl e, w1) \<Rightarrow> (Inl e, w1)
                | (Inr u, w1) \<Rightarrow>
                    (case as_path path of
                       Inl e \<Rightarrow> (Inl e, w1)
                     | Inr p \<Rightarrow>
                         (case util_move p dest w1 of
                            (Inl e, w2) \<Rightarrow> (Inl e, w2)
                          | (Inr u, w2) \<Rightarrow>
                              (case util_prune_dirs (dirname p) (directory cfg) w2 of
                                 (Inl e, w3) \<Rightarrow> (Inl e, w3)
                               | (Inr u, w3) \<Rightarrow>
                                   (case item_write cfg (set_path cfg it dest) dest
                                           (store (set_path cfg it dest) w3) of
                                      (Inl e, w4) \<Rightarrow> (Inl e, w4)
                                    | (Inr u, w4) \<Rightarrow> (Inr wk, w4))))))
           | WRITE \<Rightarrow>
               (case as_path path of
                  Inl e \<Rightarrow> (Inl e, print_line (''*'' @ display path) w)
                | Inr p \<Rightarrow>
                    (case item_write cfg it p (print_line (''*'' @ display path) w) of
                       (Inl e, w1) \<Rightarrow> (Inl e, w1)
                     | (Inr u, w1) \<Rightarrow> (Inr wk, w1)))
           | ADD \<Rightarrow> (submit wk it, print_line (''+'' @ dest) w)
           | REMOVE \<Rightarrow>
               (case remove_item cfg it (print_line (''-'' @ display path) w) of
                  (Inl e, w1) \<Rightarrow> (Inl e, w1)
                | (Inr it', w1) \<Rightarrow> (Inr wk, store it' w1))
           | NOOP \<Rightarrow> (Inr wk, w)))"

text \<open>\<^verbatim>\<open>SymlinkView.create_symlink\<close>.\<close>

definition create_symlink :: "config \<Rightarrow> item \<Rightarrow> world \<Rightarrow> (error + unit) \<times> world" where
  "create_symlink cfg it w =
     (case destination cfg it of
        Inl e \<Rightarrow> (Inl e, w)
      | Inr dest \<Rightarrow>
          (case util_mkdirall dest w of
             (Inl e, w1) \<Rightarrow> (Inl e, w1)
           | (Inr u, w1) \<Rightarrow> os_symlink (item_path it) dest w1))"

text \<open>The body of the loop of \<^verbatim>\<open>SymlinkView.update\<close>.\<close>

definition SymlinkView_apply ::
  "config \<Rightarrow> item \<Rightarrow> action \<Rightarrow> worker \<Rightarrow> world \<Rightarrow> (error + worker) \<times> world" where
  "SymlinkView_apply cfg it act wk w =
     (case destination cfg it of
        Inl e \<Rightarrow> (Inl e, w)
      | Inr dest \<Rightarrow>
          (let path = get_path cfg it in
           case act of
             MOVE \<Rightarrow>
               (case remove_item cfg it (print_line (''>'' @ display path @ '' -> '' @ dest) w) of
                  (Inl e, w1) \<Rightarrow> (Inl e, w1)
                | (Inr it1, w1) \<Rightarrow>
                    (case create_symlink cfg it1 w1 of
                       (Inl e, w2) \<Rightarrow> (Inl e, w2)
                     | (Inr u, w2) \<Rightarrow> (Inr wk, store (set_path cfg it1 dest) w2)))
           | ADD \<Rightarrow>
               (case create_symlink cfg it (print_line (''+'' @ dest) w) of
                  (Inl e, w1) \<Rightarrow> (Inl e, w1)
                | (Inr u, w1) \<Rightarrow> (Inr wk, store (set_path cfg it dest) w1))
           | REMOVE \<Rightarrow>
               (case remove_item cfg it (print_line (''-'' @ display path) w) of
                  (Inl e, w1) \<Rightarrow> (Inl e, w1)
                | (Inr it1, w1) \<Rightarrow> (Inr wk, store it1 w1))
           | _ \<Rightarrow> (Inr wk, w)))"

definition apply_action ::
  "config \<Rightarrow> item \<Rightarrow> action \<Rightarrow> worker \<Rightarrow> world \<Rightarrow> (error + worker) \<times> world" where
  "apply_action cfg it act wk w =
     (case kind cfg of
        SymlinkView \<Rightarrow> SymlinkView_apply cfg it act wk w
      | _ \<Rightarrow> External_apply cfg it act wk w)"

text \<open>
  \<^verbatim>\<open>for (item, action) in self.items_action(): ...\<close>. The generator is lazy: an item
  is classified against the file system as the actions of the items before it
  have left it. The items are those the library held when the loop began.
\<close>

fun update_loop ::
  "config \<Rightarrow> nat list \<Rightarrow> item list \<Rightarrow> worker \<Rightarrow> world \<Rightarrow> error option \<times> worker \<times> world" where
  "update_loop cfg mids [] wk w = (None, wk, w)"
| "update_loop cfg mids (it # its) wk w =
     (case item_action cfg (nodes w) mids it of
        Inl e \<Rightarrow> (Some e, wk, w)
      | Inr None \<Rightarrow> update_loop cfg mids its wk w
      | Inr (Some (item, act)) \<Rightarrow>
          (case apply_action cfg item act wk w of
             (Inl e, w1) \<Rightarrow> (Some e, wk, w1)
           | (Inr wk1, w1) \<Rightarrow> update_loop cfg mids its wk1 w1))"

text \<open>\<^verbatim>\<open>External.ask_create\<close>; \<open>answer\<close> is what the user replies to the prompt.\<close>

definition ask_create :: "config \<Rightarrow> bool option \<Rightarrow> bool \<Rightarrow> bool" where
  "ask_create cfg create answer =
     (if \<not> removable cfg then True
      else case create of Some b \<Rightarrow> b | None \<Rightarrow> answer)"

text \<open>The loop that harvests the pool at the end of \<^verbatim>\<open>External.update\<close>.\<close>

definition harvest :: "config \<Rightarrow> (item \<times> string) list \<Rightarrow> world \<Rightarrow> world" where
  "harvest cfg ys w = fold (\<lambda>r. store (set_path cfg (fst r) (snd r))) ys w"

text \<open>
  \<^verbatim>\<open>External.update\<close>, inherited by \<^verbatim>\<open>ExternalConvert\<close>. The result is the exception
  that ended the run, if any, the pool and the world. When the main loop raises,
  the jobs already submitted still run, and nothing is harvested.
\<close>

definition External_update ::
  "config \<Rightarrow> bool option \<Rightarrow> bool \<Rightarrow> nat list \<Rightarrow> world \<Rightarrow> error option \<times> worker \<times> world" where
  "External_update cfg create answer sched w =
     (if \<not> isdir (nodes w) (directory cfg) \<and> \<not> ask_create cfg create answer
      then (None, new_worker, print_line (''Skipping creation of '' @ directory cfg) w)
      else
        (case update_loop cfg (matched_ids cfg (lib_albums w) (lib_items w)) (lib_items w)
                new_worker w of
           (Some e, wk, w1) \<Rightarrow>
             (Some e, wk, snd (run_jobs cfg (completion_order sched (tasks wk)) w1))
         | (None, wk, w1) \<Rightarrow>
             (case as_completed cfg sched wk w1 of
                ((ys, Some e), wk1, w2) \<Rightarrow> (Some e, wk1, harvest cfg ys w2)
              | ((ys, None), wk1, w2) \<Rightarrow> (None, shutdown wk1, harvest cfg ys w2))))"

text \<open>\<^verbatim>\<open>SymlinkView.update\<close> overrides it; its \<^verbatim>\<open>create\<close> argument is not read.\<close>

definition SymlinkView_update ::
  "config \<Rightarrow> bool option \<Rightarrow> bool \<Rightarrow> nat list \<Rightarrow> world \<Rightarrow> error option \<times> worker \<times> world" where
  "SymlinkView_update cfg create answer sched w =
     update_loop cfg (matched_ids cfg (lib_albums w) (lib_items w)) (lib_items w) new_worker w"

definition update ::
  "config \<Rightarrow> bool option \<Rightarrow> bool \<Rightarrow> nat list \<Rightarrow> world \<Rightarrow> error option \<times> worker \<times> world" where
  "update cfg create answer sched w =
     (case kind cfg of
        SymlinkView \<Rightarrow> SymlinkView_update cfg create answer sched w
      | _ \<Rightarrow> External_update cfg create answer sched w)"

section \<open>Configuration\<close>

text \<open>
  The options a collection may set. A query comes parsed, as the pair of its
  match functions; \<open>opt_convert_when\<close> is the meaning of the expression string.
\<close>

record options =
  opt_query :: "((item \<Rightarrow> bool) \<times> (album \<Rightarrow> bool)) option"
  opt_convert_when :: "(int \<Rightarrow> int \<Rightarrow> string \<Rightarrow> string list \<Rightarrow> error + bool) option"
  opt_albumart_ext :: "string list option"
  opt_copy_albumart :: "bool option"
  opt_removable :: "bool option"

text \<open>\<^verbatim>\<open>External.parse_config\<close> and its override in \<^verbatim>\<open>SymlinkView\<close>, for the options
  with a default; \<open>base\<close> carries the name, the directory and the host's
  collaborators.\<close>

definition parse_config :: "options \<Rightarrow> config \<Rightarrow> error + config" where
  "parse_config opts base =
     (case (if kind base = SymlinkView \<and> opt_query opts = None
            then Some ((\<lambda>i. True), (\<lambda>a. True)) else opt_query opts) of
        None \<Rightarrow> Inl ConfigError
      | Some q \<Rightarrow>
          Inr (base\<lparr>query_item := fst q, query_album := snd q,
                convert_when :=
                  (case opt_convert_when opts of
                     None \<Rightarrow> (\<lambda>b m f a. Inr True)
                   | Some e \<Rightarrow> e),
                other_ext :=
                  (case opt_albumart_ext opts of
                     None \<Rightarrow> [''.jpg'', ''.jpeg'', ''.png'']
                   | Some l \<Rightarrow> l),
                copy_albumart := (case opt_copy_albumart opts of None \<Rightarrow> True | Some b \<Rightarrow> b),
                removable := (case opt_removable opts of None \<Rightarrow> True | Some b \<Rightarrow> b)\<rparr>))"

text \<open>\<^verbatim>\<open>ExternalConvert.__init__\<close> after \<^verbatim>\<open>parse_config\<close>: \<open>get_format\<close> is the convert
  plugin's table from a format name to its command and extension.\<close>

definition ExternalConvert_init ::
  "string list \<Rightarrow> int \<Rightarrow> bool \<Rightarrow> (string \<Rightarrow> string \<times> string) \<Rightarrow> config \<Rightarrow> error + config" where
  "ExternalConvert_init fmts max_bitrate emb get_format cfg =
     (case map lower fmts of
        [] \<Rightarrow> Inl IndexError
      | f # fs \<Rightarrow>
          Inr (cfg\<lparr>kind := ExternalConvert, embed := emb, maxbr := max_bitrate * 1000,
                formats := f # fs, convert_cmd := fst (get_format f),
                ext := snd (get_format f)\<rparr>))"

section \<open>A small collection\<close>

text \<open>
  A plain collection \<^verbatim>\<open>usb\<close> under \<^verbatim>\<open>/alt\<close> that selects the items of at least
  128 kbit/s and names each copy after its primary file; the theorems below are
  instantiated on it.
\<close>

definition ex_cfg :: config where
  "ex_cfg = \<lparr>kind = External, coll_name = ''usb'', directory = ''/alt'',
     query_item = (\<lambda>i. 128000 \<le> bitrate i), query_album = (\<lambda>a. False),
     item_destination = (\<lambda>d i. join d (basename (item_path i))),
     convert_when = (\<lambda>b m f a. Inr True),
     other_ext = [''.jpg'', ''.jpeg'', ''.png''], copy_albumart = True, removable = True,
     formats = [], ext = [], convert_cmd = [], maxbr = 0, embed = False,
     encode = (\<lambda>c d. Some d), embed_art = (\<lambda>a d. d), write_tags = (\<lambda>i d. Some d)\<rparr>"

definition ex_item :: "pyval option \<Rightarrow> item" where
  "ex_item v = \<lparr>item_id = 1, item_path = ''/music/a.mp3'', bitrate = 320000, format = ''MP3'',
     album_id = None, flex = (\<lambda>k. if k = ''alt.usb'' then v else None)\<rparr>"

definition ex_lost :: item where
  "ex_lost = \<lparr>item_id = 2, item_path = ''/music/lost.mp3'', bitrate = 320000, format = ''MP3'',
     album_id = None,
     flex = (\<lambda>k. if k = ''alt.usb'' then Some (PBytes ''/alt/lost.mp3'') else None)\<rparr>"

definition ex_quiet :: "pyval option \<Rightarrow> item" where
  "ex_quiet v = \<lparr>item_id = 3, item_path = ''/music/q.mp3'', bitrate = 64000, format = ''MP3'',
     album_id = None, flex = (\<lambda>k. if k = ''alt.usb'' then v else None)\<rparr>"

definition ex_nodes :: "(key \<times> node) list" where
  "ex_nodes =
     [([''music''], Dir), ([''music'', ''a.mp3''], File 20 ''A''),
      ([''music'', ''q.mp3''], File 5 ''Q''),
      ([''alt''], Dir), ([''alt'', ''a.mp3''], File 10 ''A''),
      ([''alt'', ''old.mp3''], File 10 ''A''), ([''alt'', ''lost.mp3''], File 10 ''L'')]"

text \<open>The same collection as a transcoding one: MP3 is the target format, and an
  item is transcoded when its format is not among the targets.\<close>

definition ex_conv :: config where
  "ex_conv = ex_cfg\<lparr>kind := ExternalConvert, convert_when := (\<lambda>b m f a. Inr (f \<notin> set a)),
     formats := [''mp3''], ext := ''mp3'', convert_cmd := ''ffmpeg'', maxbr := 320000\<rparr>"

definition ex_flac :: item where
  "ex_flac = \<lparr>item_id = 4, item_path = ''/music/b.flac'', bitrate = 900000, format = ''FLAC'',
     album_id = None, flex = (\<lambda>k. None)\<rparr>"

definition ex_opts :: options where
  "ex_opts = \<lparr>opt_query = Some ((\<lambda>i. True), (\<lambda>a. False)), opt_convert_when = None,
     opt_albumart_ext = None, opt_copy_albumart = None, opt_removable = None\<rparr>"

text \<open>Two matched items without a recorded path: the primary file of the first
  is missing from disk, that of the second is there.\<close>

definition ex_bad :: item where
  "ex_bad = \<lparr>item_id = 6, item_path = ''/music/none.mp3'', bitrate = 192000, format = ''MP3'',
     album_id = None, flex = (\<lambda>k. None)\<rparr>"

definition ex_new :: item where
  "ex_new = \<lparr>item_id = 5, item_path = ''/music/q.mp3'', bitrate = 192000, format = ''MP3'',
     album_id = None, flex = (\<lambda>k. None)\<rparr>"

definition ex_world :: "item list \<Rightarrow> world" where
  "ex_world its = \<lparr>nodes = ex_nodes, clock = 30, lib_items = its, lib_albums = [], out = []\<rparr>"

section \<open>Evaluating the host primitives\<close>

lemma isfile_empty: "\<not> isfile ns []"
  by (simp add: isfile_def stat_def maxlinks_def eval_nat_numeral)

lemma stat_plain:
  "p \<noteq> [] \<Longrightarrow> lookup ns (resolve p) = Some (File m d) \<Longrightarrow> stat ns p = Some (File m d)"
  by (simp add: stat_def maxlinks_def eval_nat_numeral)

lemma stat_missing: "lookup ns (resolve p) = None \<Longrightarrow> stat ns p = None"
  by (simp add: stat_def maxlinks_def eval_nat_numeral)

lemma ex_kind: "kind ex_cfg = External"
  by (simp add: ex_cfg_def)

lemma ex_path_key: "path_key ex_cfg = ''alt.usb''"
  by (simp add: path_key_def ex_cfg_def)

lemma ex_get_path: "get_path ex_cfg (ex_item v) = (case v of None \<Rightarrow> PNone | Some x \<Rightarrow> x)"
  by (simp add: get_path_def ex_path_key) (simp add: ex_item_def)

lemma ex_dest: "External_destination ex_cfg (ex_item v) = ''/alt/a.mp3''"
  by (simp add: External_destination_def ex_cfg_def ex_item_def join_def basename_def
      cut_last_sep_def sep_def)

lemma ex_destination: "destination ex_cfg (ex_item v) = Inr ''/alt/a.mp3''"
  by (simp add: destination_def ex_dest ex_kind)

lemma ex_stat_a: "stat ex_nodes ''/alt/a.mp3'' = Some (File 10 ''A'')"
  by (rule stat_plain) (simp_all add: lookup_def ex_nodes_def resolve_def norm_step_def sep_def)

lemma ex_stat_old: "stat ex_nodes ''/alt/old.mp3'' = Some (File 10 ''A'')"
  by (rule stat_plain) (simp_all add: lookup_def ex_nodes_def resolve_def norm_step_def sep_def)

lemma ex_stat_src: "stat ex_nodes ''/music/a.mp3'' = Some (File 20 ''A'')"
  by (rule stat_plain) (simp_all add: lookup_def ex_nodes_def resolve_def norm_step_def sep_def)

lemma ex_stat_gone: "stat ex_nodes ''/alt/gone.mp3'' = None"
  by (rule stat_missing) (simp add: lookup_def ex_nodes_def resolve_def norm_step_def sep_def)

section \<open>The order of the classifier's tests\<close>

text \<open>
  Claim C1. For a matched item the classifier decides in a fixed order. When no
  path is recorded, or the recorded path names no file on disk, the action is ADD.
  Otherwise, when the recorded path differs from the computed destination, the
  action is MOVE, whatever the modification times are. Otherwise the action is
  WRITE when the alternative file is strictly older than the primary file, and
  NOOP when it is not. The recorded path and the destination are byte strings
  that decode, and the two modification times are those the file system gives.
\<close>

theorem matched_item_action_order:
  "(get_path cfg it = PNone \<longrightarrow> matched_item_action cfg ns it = Inr (it, ADD)) \<and>
   (get_path cfg it = PBytes p \<and> valid_utf8 p \<and> \<not> isfile ns p \<longrightarrow>
      matched_item_action cfg ns it = Inr (it, ADD)) \<and>
   (get_path cfg it = PBytes p \<and> valid_utf8 p \<and> isfile ns p \<and>
    destination cfg it = Inr d \<and> valid_utf8 d \<and> p \<noteq> d \<longrightarrow>
      matched_item_action cfg ns it = Inr (it, MOVE)) \<and>
   (get_path cfg it = PBytes p \<and> valid_utf8 p \<and> isfile ns p \<and>
    destination cfg it = Inr p \<and>
    getmtime ns p = Inr ma \<and> getmtime ns (item_path it) = Inr mp \<longrightarrow>
      matched_item_action cfg ns it = Inr (it, if ma < mp then WRITE else NOOP))"
  by (auto simp: matched_item_action_def isfile_empty)

theorem matched_item_action_order_witness:
  "matched_item_action ex_cfg ex_nodes (ex_item None) = Inr (ex_item None, ADD) \<and>
   matched_item_action ex_cfg ex_nodes (ex_item (Some (PBytes ''/alt/gone.mp3'')))
     = Inr (ex_item (Some (PBytes ''/alt/gone.mp3'')), ADD) \<and>
   getmtime ex_nodes ''/alt/old.mp3'' = Inr 10 \<and>
   getmtime ex_nodes ''/music/a.mp3'' = Inr 20 \<and>
   matched_item_action ex_cfg ex_nodes (ex_item (Some (PBytes ''/alt/old.mp3'')))
     = Inr (ex_item (Some (PBytes ''/alt/old.mp3'')), MOVE) \<and>
   matched_item_action ex_cfg ex_nodes (ex_item (Some (PBytes ''/alt/a.mp3'')))
     = Inr (ex_item (Some (PBytes ''/alt/a.mp3'')), WRITE)"
proof -
  have a1: "get_path ex_cfg (ex_item None) = PNone"
    by (simp add: ex_get_path)
  have a2: "get_path ex_cfg (ex_item (Some (PBytes ''/alt/gone.mp3''))) = PBytes ''/alt/gone.mp3''
      \<and> valid_utf8 ''/alt/gone.mp3'' \<and> \<not> isfile ex_nodes ''/alt/gone.mp3''"
    by (simp add: ex_get_path valid_utf8_def isfile_def ex_stat_gone)
  have a3: "get_path ex_cfg (ex_item (Some (PBytes ''/alt/old.mp3''))) = PBytes ''/alt/old.mp3''
      \<and> valid_utf8 ''/alt/old.mp3'' \<and> isfile ex_nodes ''/alt/old.mp3''
      \<and> destination ex_cfg (ex_item (Some (PBytes ''/alt/old.mp3''))) = Inr ''/alt/a.mp3''
      \<and> valid_utf8 ''/alt/a.mp3'' \<and> ''/alt/old.mp3'' \<noteq> ''/alt/a.mp3''"
    by (simp add: ex_get_path valid_utf8_def isfile_def ex_stat_old ex_destination)
  have a4: "get_path ex_cfg (ex_item (Some (PBytes ''/alt/a.mp3''))) = PBytes ''/alt/a.mp3''
      \<and> valid_utf8 ''/alt/a.mp3'' \<and> isfile ex_nodes ''/alt/a.mp3''
      \<and> destination ex_cfg (ex_item (Some (PBytes ''/alt/a.mp3''))) = Inr ''/alt/a.mp3''
      \<and> getmtime ex_nodes ''/alt/a.mp3'' = Inr 10
      \<and> getmtime ex_nodes (item_path (ex_item (Some (PBytes ''/alt/a.mp3'')))) = Inr 20"
    by (simp add: ex_get_path valid_utf8_def isfile_def getmtime_def ex_stat_a ex_stat_src
        ex_destination) (simp add: ex_item_def ex_stat_src)
  have m: "getmtime ex_nodes ''/alt/old.mp3'' = Inr 10 \<and> getmtime ex_nodes ''/music/a.mp3'' = Inr 20"
    by (simp add: getmtime_def ex_stat_old ex_stat_src)
  from a1 a2 a3 a4 m
    matched_item_action_order [where cfg = ex_cfg and it = "ex_item None" and ns = ex_nodes]
    matched_item_action_order [where cfg = ex_cfg
      and it = "ex_item (Some (PBytes ''/alt/gone.mp3''))" and p = "''/alt/gone.mp3''"
      and ns = ex_nodes]
    matched_item_action_order [where cfg = ex_cfg
      and it = "ex_item (Some (PBytes ''/alt/old.mp3''))" and p = "''/alt/old.mp3''"
      and ns = ex_nodes and d = "''/alt/a.mp3''"]
    matched_item_action_order [where cfg = ex_cfg
      and it = "ex_item (Some (PBytes ''/alt/a.mp3''))" and p = "''/alt/a.mp3''"
      and ns = ex_nodes and ma = 10 and mp = 20]
  show ?thesis by simp
qed

section \<open>Which items are classified, and how\<close>

lemma ex_quiet_get_path: "get_path ex_cfg (ex_quiet v) = (case v of None \<Rightarrow> PNone | Some x \<Rightarrow> x)"
  by (simp add: get_path_def ex_path_key) (simp add: ex_quiet_def)

lemma ex_item_matched: "is_matched ex_cfg [] (ex_item v)"
  by (simp add: is_matched_def ex_cfg_def ex_item_def)

lemma ex_quiet_unmatched: "\<not> is_matched ex_cfg [] (ex_quiet v)"
  by (simp add: is_matched_def ex_cfg_def ex_quiet_def)

lemma ex_lost_matched: "is_matched ex_cfg [] ex_lost"
  by (simp add: is_matched_def ex_cfg_def ex_lost_def)

lemma ex_lost_get_path: "get_path ex_cfg ex_lost = PBytes ''/alt/lost.mp3''"
  by (simp add: get_path_def ex_path_key) (simp add: ex_lost_def)

lemma ex_lost_destination: "destination ex_cfg ex_lost = Inr ''/alt/lost.mp3''"
  by (simp add: destination_def ex_kind External_destination_def)
     (simp add: ex_cfg_def ex_lost_def join_def basename_def cut_last_sep_def sep_def)

lemma ex_stat_lost: "stat ex_nodes ''/alt/lost.mp3'' = Some (File 10 ''L'')"
  by (rule stat_plain) (simp_all add: lookup_def ex_nodes_def resolve_def norm_step_def sep_def)

lemma ex_stat_lost_src: "stat ex_nodes ''/music/lost.mp3'' = None"
  by (rule stat_missing) (simp add: lookup_def ex_nodes_def resolve_def norm_step_def sep_def)

lemma ex_write_a:
  "matched_item_action ex_cfg ex_nodes (ex_item (Some (PBytes ''/alt/a.mp3'')))
     = Inr (ex_item (Some (PBytes ''/alt/a.mp3'')), WRITE)"
  by (simp add: matched_item_action_def ex_get_path valid_utf8_def isfile_def ex_stat_a
      ex_destination getmtime_def) (simp add: ex_item_def ex_stat_src)

text \<open>
  A matched item whose copy sits at its destination while its primary file is gone
  from disk: \<^verbatim>\<open>os.path.getmtime(item.path)\<close> raises, the generator ends, and the item
  gets no action.
\<close>

theorem missing_primary_counterexample:
  "is_matched ex_cfg [] ex_lost \<and>
   item_action ex_cfg ex_nodes [] ex_lost = Inl OSError \<and>
   items_action_loop ex_cfg ex_nodes [] [ex_lost] = ([], Some OSError)"
proof -
  have "matched_item_action ex_cfg ex_nodes ex_lost = Inl OSError"
    by (simp add: matched_item_action_def ex_lost_get_path valid_utf8_def isfile_def
        ex_stat_lost ex_lost_destination getmtime_def)
       (simp add: ex_lost_def ex_stat_lost_src)
  then show ?thesis
    by (simp add: item_action_def ex_lost_matched)
qed

lemma items_action_loop_yields:
  "snd (items_action_loop cfg ns mids its) = None \<Longrightarrow>
   fst (items_action_loop cfg ns mids its) =
     concat (map (\<lambda>it. case item_action cfg ns mids it of Inr (Some ia) \<Rightarrow> [ia] | _ \<Rightarrow> []) its)"
  by (induction its) (auto split: sum.splits option.splits)

text \<open>
  Claim C2, amended. A matched item (matched itself, or a member of a matched
  album) whose classification does not raise is assigned exactly one action, one of
  NOOP, ADD, MOVE and WRITE; classification does not raise when the recorded value
  is absent or a byte string that decodes, the destination is computed and decodes,
  and the primary file is on disk. An unmatched item is assigned REMOVE when its
  recorded value is truthy (a non-empty path) and yields nothing otherwise. A
  generator that runs to its end yields, in library order, exactly these actions,
  at most one per item.
\<close>

theorem item_action_partition:
  "(is_matched cfg mids it \<and> item_action cfg ns mids it = Inr r \<longrightarrow>
      r \<in> {Some (it, NOOP), Some (it, ADD), Some (it, MOVE), Some (it, WRITE)}) \<and>
   (is_matched cfg mids it \<and>
    (get_path cfg it = PNone \<or> (\<exists>p. get_path cfg it = PBytes p \<and> valid_utf8 p)) \<and>
    (\<exists>d. destination cfg it = Inr d \<and> valid_utf8 d) \<and> isfile ns (item_path it) \<longrightarrow>
      (\<exists>a. item_action cfg ns mids it = Inr (Some (it, a)))) \<and>
   (\<not> is_matched cfg mids it \<longrightarrow>
      item_action cfg ns mids it
        = Inr (if truthy (get_path cfg it) then Some (it, REMOVE) else None)) \<and>
   (snd (items_action_loop cfg ns mids its) = None \<longrightarrow>
      fst (items_action_loop cfg ns mids its) =
        concat (map (\<lambda>i. case item_action cfg ns mids i of Inr (Some ia) \<Rightarrow> [ia] | _ \<Rightarrow> []) its))"
proof (intro conjI impI)
  assume "is_matched cfg mids it \<and> item_action cfg ns mids it = Inr r"
  then show "r \<in> {Some (it, NOOP), Some (it, ADD), Some (it, MOVE), Some (it, WRITE)}"
    by (auto simp: item_action_def matched_item_action_def
        split: pyval.splits sum.splits if_splits option.splits)
next
  assume "is_matched cfg mids it \<and>
    (get_path cfg it = PNone \<or> (\<exists>p. get_path cfg it = PBytes p \<and> valid_utf8 p)) \<and>
    (\<exists>d. destination cfg it = Inr d \<and> valid_utf8 d) \<and> isfile ns (item_path it)"
  then show "\<exists>a. item_action cfg ns mids it = Inr (Some (it, a))"
    by (auto simp: item_action_def matched_item_action_def isfile_def getmtime_def
        split: option.splits node.splits)
next
  assume "\<not> is_matched cfg mids it"
  then show "item_action cfg ns mids it
      = Inr (if truthy (get_path cfg it) then Some (it, REMOVE) else None)"
    by (simp add: item_action_def)
next
  assume "snd (items_action_loop cfg ns mids its) = None"
  then show "fst (items_action_loop cfg ns mids its) =
      concat (map (\<lambda>i. case item_action cfg ns mids i of Inr (Some ia) \<Rightarrow> [ia] | _ \<Rightarrow> []) its)"
    by (rule items_action_loop_yields)
qed

theorem item_action_partition_witness:
  "item_action ex_cfg ex_nodes [] (ex_item (Some (PBytes ''/alt/a.mp3'')))
     = Inr (Some (ex_item (Some (PBytes ''/alt/a.mp3'')), WRITE)) \<and>
   item_action ex_cfg ex_nodes [] (ex_quiet (Some (PBytes ''/alt/q.mp3'')))
     = Inr (Some (ex_quiet (Some (PBytes ''/alt/q.mp3'')), REMOVE)) \<and>
   item_action ex_cfg ex_nodes [] (ex_quiet None) = Inr None \<and>
   items_action_loop ex_cfg ex_nodes []
       [ex_item (Some (PBytes ''/alt/a.mp3'')), ex_quiet None,
        ex_quiet (Some (PBytes ''/alt/q.mp3''))]
     = ([(ex_item (Some (PBytes ''/alt/a.mp3'')), WRITE),
         (ex_quiet (Some (PBytes ''/alt/q.mp3'')), REMOVE)], None)"
proof -
  let ?a = "ex_item (Some (PBytes ''/alt/a.mp3''))"
  let ?q = "ex_quiet (Some (PBytes ''/alt/q.mp3''))"
  have m: "is_matched ex_cfg [] ?a" by (rule ex_item_matched)
  have g: "get_path ex_cfg ?a = PNone \<or> (\<exists>p. get_path ex_cfg ?a = PBytes p \<and> valid_utf8 p)"
    by (simp add: ex_get_path valid_utf8_def)
  have d: "\<exists>d. destination ex_cfg ?a = Inr d \<and> valid_utf8 d"
    by (simp add: ex_destination valid_utf8_def)
  have f: "isfile ex_nodes (item_path ?a)"
    by (simp add: ex_item_def isfile_def ex_stat_src)
  from item_action_partition [where cfg = ex_cfg and mids = "[]" and it = ?a and ns = ex_nodes]
    m g d f
  obtain a where a: "item_action ex_cfg ex_nodes [] ?a = Inr (Some (?a, a))"
    by blast
  from a m have 1: "item_action ex_cfg ex_nodes [] ?a = Inr (Some (?a, WRITE))"
    by (simp add: item_action_def ex_write_a)
  have 2: "item_action ex_cfg ex_nodes [] ?q = Inr (Some (?q, REMOVE))"
    using item_action_partition [where cfg = ex_cfg and mids = "[]" and it = ?q and ns = ex_nodes]
      ex_quiet_unmatched [of "Some (PBytes ''/alt/q.mp3'')"]
    by (simp add: ex_quiet_get_path)
  have 3: "item_action ex_cfg ex_nodes [] (ex_quiet None) = Inr None"
    using item_action_partition [where cfg = ex_cfg and mids = "[]" and it = "ex_quiet None"
        and ns = ex_nodes]
      ex_quiet_unmatched [of None]
    by (simp add: ex_quiet_get_path)
  have s: "snd (items_action_loop ex_cfg ex_nodes [] [?a, ex_quiet None, ?q]) = None"
    by (simp add: 1 2 3)
  from item_action_partition [where cfg = ex_cfg and mids = "[]" and ns = ex_nodes
      and its = "[?a, ex_quiet None, ?q]"] s
  have "fst (items_action_loop ex_cfg ex_nodes [] [?a, ex_quiet None, ?q])
      = [(?a, WRITE), (?q, REMOVE)]"
    by (simp add: 1 2 3)
  with s have 4: "items_action_loop ex_cfg ex_nodes [] [?a, ex_quiet None, ?q]
      = ([(?a, WRITE), (?q, REMOVE)], None)"
    by (simp add: prod_eq_iff)
  from 1 2 3 4 show ?thesis by simp
qed

section \<open>A recorded value of another type\<close>

text \<open>
  A matched item whose attribute holds a text string instead of a byte string:
  \<^verbatim>\<open>get_path\<close> returns it, since no \<^verbatim>\<open>KeyError\<close> was raised, and
  \<^verbatim>\<open>path.decode('utf-8')\<close> raises \<^verbatim>\<open>AttributeError\<close>. The same item without the
  attribute is classified ADD.
\<close>

theorem str_path_raises_counterexample:
  "is_matched ex_cfg [] (ex_item (Some (PStr ''/alt/a.mp3''))) \<and>
   flex (ex_item (Some (PStr ''/alt/a.mp3''))) (path_key ex_cfg) = Some (PStr ''/alt/a.mp3'') \<and>
   item_action ex_cfg ex_nodes [] (ex_item (Some (PStr ''/alt/a.mp3''))) = Inl AttributeError \<and>
   item_action ex_cfg ex_nodes [] (ex_item None) = Inr (Some (ex_item None, ADD))"
  by (simp add: item_action_def matched_item_action_def ex_get_path is_matched_def ex_path_key)
     (simp add: ex_cfg_def ex_item_def)

text \<open>
  Claim C8, amended. For a matched item, an attribute that is absent (the lookup
  raises \<^verbatim>\<open>KeyError\<close>) or holds \<^verbatim>\<open>None\<close> is classified ADD. An attribute that is
  present with a text string makes classification raise \<^verbatim>\<open>AttributeError\<close>, and one
  with a byte string that is not well-formed UTF-8 makes it raise
  \<^verbatim>\<open>UnicodeDecodeError\<close>: neither falls through to ADD.
\<close>

theorem malformed_path_classification:
  "(flex it (path_key cfg) = None \<or> flex it (path_key cfg) = Some PNone \<longrightarrow>
      matched_item_action cfg ns it = Inr (it, ADD)) \<and>
   (flex it (path_key cfg) = Some (PStr s) \<longrightarrow>
      matched_item_action cfg ns it = Inl AttributeError) \<and>
   (flex it (path_key cfg) = Some (PBytes b) \<and> \<not> valid_utf8 b \<longrightarrow>
      matched_item_action cfg ns it = Inl UnicodeDecodeError)"
  by (auto simp: matched_item_action_def get_path_def)

theorem malformed_path_classification_witness:
  "matched_item_action ex_cfg ex_nodes (ex_item None) = Inr (ex_item None, ADD) \<and>
   matched_item_action ex_cfg ex_nodes (ex_item (Some PNone)) = Inr (ex_item (Some PNone), ADD) \<and>
   matched_item_action ex_cfg ex_nodes (ex_item (Some (PStr ''/alt/a.mp3''))) = Inl AttributeError \<and>
   matched_item_action ex_cfg ex_nodes (ex_item (Some (PBytes [CHR 0xFF]))) = Inl UnicodeDecodeError"
proof -
  have k: "\<And>v. flex (ex_item v) (path_key ex_cfg) = v"
    by (simp add: ex_path_key) (simp add: ex_item_def)
  have u: "\<not> valid_utf8 [CHR 0xFF]"
    by (simp add: valid_utf8_def)
  from k u
    malformed_path_classification [where it = "ex_item None" and cfg = ex_cfg and ns = ex_nodes]
    malformed_path_classification [where it = "ex_item (Some PNone)" and cfg = ex_cfg
      and ns = ex_nodes]
    malformed_path_classification [where it = "ex_item (Some (PStr ''/alt/a.mp3''))"
      and cfg = ex_cfg and ns = ex_nodes and s = "''/alt/a.mp3''"]
    malformed_path_classification [where it = "ex_item (Some (PBytes [CHR 0xFF]))"
      and cfg = ex_cfg and ns = ex_nodes and b = "[CHR 0xFF]"]
  show ?thesis by simp
qed

section \<open>An empty recorded path\<close>

text \<open>
  Claim C10. An item whose attribute is present and holds the empty byte string is
  treated as untracked. When it is matched it is classified ADD, whatever is on
  disk. When it is not matched it yields no action, REMOVE included, and the
  update loop passes over it: the world and the pool are what they were, so the
  empty attribute stays in place.
\<close>

theorem empty_path_untracked:
  "flex it (path_key cfg) = Some (PBytes []) \<Longrightarrow>
     item_action cfg ns mids it = Inr (if is_matched cfg mids it then Some (it, ADD) else None) \<and>
     (\<not> is_matched cfg mids it \<longrightarrow>
        update_loop cfg mids (it # its) wk w = update_loop cfg mids its wk w)"
  by (simp add: item_action_def matched_item_action_def get_path_def valid_utf8_def)

theorem empty_path_untracked_witness:
  "flex (ex_item (Some (PBytes []))) (path_key ex_cfg) = Some (PBytes []) \<and>
   flex (ex_quiet (Some (PBytes []))) (path_key ex_cfg) = Some (PBytes []) \<and>
   item_action ex_cfg ex_nodes [] (ex_item (Some (PBytes [])))
     = Inr (Some (ex_item (Some (PBytes [])), ADD)) \<and>
   item_action ex_cfg ex_nodes [] (ex_quiet (Some (PBytes []))) = Inr None \<and>
   update_loop ex_cfg [] [ex_quiet (Some (PBytes []))] new_worker
       \<lparr>nodes = ex_nodes, clock = 30, lib_items = [ex_quiet (Some (PBytes []))],
        lib_albums = [], out = []\<rparr>
     = (None, new_worker,
        \<lparr>nodes = ex_nodes, clock = 30, lib_items = [ex_quiet (Some (PBytes []))],
         lib_albums = [], out = []\<rparr>)"
proof -
  have k1: "flex (ex_item (Some (PBytes []))) (path_key ex_cfg) = Some (PBytes [])"
    by (simp add: ex_path_key) (simp add: ex_item_def)
  have k2: "flex (ex_quiet (Some (PBytes []))) (path_key ex_cfg) = Some (PBytes [])"
    by (simp add: ex_path_key) (simp add: ex_quiet_def)
  from k1 k2
    empty_path_untracked [OF k1, where ns = ex_nodes and mids = "[]"]
    empty_path_untracked [OF k2, where ns = ex_nodes and mids = "[]" and its = "[]"
      and wk = new_worker
      and w = "\<lparr>nodes = ex_nodes, clock = 30, lib_items = [ex_quiet (Some (PBytes []))],
                lib_albums = [], out = []\<rparr>"]
    ex_item_matched [of "Some (PBytes [])"] ex_quiet_unmatched [of "Some (PBytes [])"]
  show ?thesis by simp
qed

section \<open>The destination of a transcoding collection\<close>

lemma splitext_append: "fst (splitext p) @ snd (splitext p) = p"
  by (simp add: splitext_def Let_def)

lemma cut_last_sep_append:
  "sep \<notin> set s \<Longrightarrow> snd (cut_last_sep (r @ s)) = snd (cut_last_sep r) @ s"
  by (simp add: cut_last_sep_def takeWhile_append)

lemma basename_length: "length (basename r) \<le> length r"
  by (simp add: basename_def cut_last_sep_def) (metis length_rev length_takeWhile_le)

lemma splitext_replace:
  assumes e: "extsep \<notin> set e" "sep \<notin> set e"
    and r: "\<not> list_all (\<lambda>c. c = extsep) (basename r)"
  shows "splitext (r @ extsep # e) = (r, extsep # e)"
proof -
  let ?p = "r @ extsep # e"
  have ne: "extsep \<noteq> sep" by (simp add: extsep_def sep_def)
  have tl: "snd (cut_last_sep ?p) = basename r @ extsep # e"
    using e ne cut_last_sep_append [of "extsep # e" r] by (simp add: basename_def)
  have st: "rev (dropWhile (\<lambda>c. c \<noteq> extsep) (rev (basename r @ extsep # e))) = basename r @ [extsep]"
    using e by (simp add: dropWhile_append)
  have n: "length ?p - length (basename r @ extsep # e) + length (basename r @ [extsep]) - 1 = length r"
    using basename_length [of r] by simp
  have "splitext ?p = (take (length r) ?p, drop (length r) ?p)"
    unfolding splitext_def Let_def tl st n using r by simp
  then show ?thesis by simp
qed

text \<open>
  Claim C4. For a transcoding collection the destination follows eligibility. When
  \<^verbatim>\<open>convert_when\<close> evaluates false for an item, the destination is the one of a plain
  collection, extension included. When it evaluates true, the destination is the
  plain one with its extension (what \<^verbatim>\<open>splitext\<close> splits off) replaced by a dot and
  the extension of the first configured format; splitting that path again gives
  back the same root and the new extension, provided the new extension has no dot
  or slash and the root's last component is not made of dots only. A collection
  that sets no \<^verbatim>\<open>convert_when\<close> transcodes every item, and \<^verbatim>\<open>ext\<close> is the extension
  the convert plugin gives for the first of the configured formats, in lower case.
\<close>

theorem convert_destination_tracks_eligibility:
  "kind cfg = ExternalConvert \<Longrightarrow>
    (should_transcode cfg it = Inr False \<longrightarrow>
       destination cfg it = Inr (External_destination cfg it)) \<and>
    (should_transcode cfg it = Inr True \<longrightarrow>
       destination cfg it = Inr (fst (splitext (External_destination cfg it)) @ ''.'' @ ext cfg)) \<and>
    fst (splitext (External_destination cfg it)) @ snd (splitext (External_destination cfg it))
      = External_destination cfg it \<and>
    (extsep \<notin> set (ext cfg) \<and> sep \<notin> set (ext cfg) \<and>
     \<not> list_all (\<lambda>c. c = extsep) (basename (fst (splitext (External_destination cfg it)))) \<longrightarrow>
       splitext (fst (splitext (External_destination cfg it)) @ ''.'' @ ext cfg)
         = (fst (splitext (External_destination cfg it)), ''.'' @ ext cfg)) \<and>
    (opt_convert_when opts = None \<and> parse_config opts base = Inr c1 \<and>
     ExternalConvert_init fmts mb emb gf c1 = Inr cfg \<longrightarrow>
       should_transcode cfg it = Inr True \<and> ext cfg = snd (gf (lower (hd fmts))))"
proof (intro conjI impI)
  assume k: "kind cfg = ExternalConvert"
  { assume "should_transcode cfg it = Inr False"
    with k show "destination cfg it = Inr (External_destination cfg it)"
      by (simp add: destination_def ExternalConvert_destination_def) }
  { assume "should_transcode cfg it = Inr True"
    with k show "destination cfg it
        = Inr (fst (splitext (External_destination cfg it)) @ ''.'' @ ext cfg)"
      by (simp add: destination_def ExternalConvert_destination_def) }
  show "fst (splitext (External_destination cfg it)) @ snd (splitext (External_destination cfg it))
      = External_destination cfg it"
    by (rule splitext_append)
  { assume "extsep \<notin> set (ext cfg) \<and> sep \<notin> set (ext cfg) \<and>
     \<not> list_all (\<lambda>c. c = extsep) (basename (fst (splitext (External_destination cfg it))))"
    then show "splitext (fst (splitext (External_destination cfg it)) @ ''.'' @ ext cfg)
         = (fst (splitext (External_destination cfg it)), ''.'' @ ext cfg)"
      using splitext_replace [of "ext cfg" "fst (splitext (External_destination cfg it))"]
      by (simp add: extsep_def) }
  { assume a: "opt_convert_when opts = None \<and> parse_config opts base = Inr c1 \<and>
     ExternalConvert_init fmts mb emb gf c1 = Inr cfg"
    then have cw: "convert_when c1 = (\<lambda>b m f a. Inr True)"
      by (auto simp: parse_config_def split: option.splits)
    from a have "convert_when cfg = convert_when c1"
      by (auto simp: ExternalConvert_init_def split: list.splits)
    with cw show "should_transcode cfg it = Inr True"
      by (simp add: should_transcode_def)
    from a show "ext cfg = snd (gf (lower (hd fmts)))"
      by (cases fmts) (auto simp: ExternalConvert_init_def split: list.splits) }
qed

lemma ex_conv_kind: "kind ex_conv = ExternalConvert"
  by (simp add: ex_conv_def)

lemma lower_MP3: "lower ''MP3'' = ''mp3''"
  by code_simp

lemma lower_FLAC: "lower ''FLAC'' = ''flac''"
  by code_simp

theorem convert_destination_tracks_eligibility_witness:
  "should_transcode ex_conv (ex_item None) = Inr False \<and>
   destination ex_conv (ex_item None) = Inr ''/alt/a.mp3'' \<and>
   should_transcode ex_conv ex_flac = Inr True \<and>
   External_destination ex_conv ex_flac = ''/alt/b.flac'' \<and>
   destination ex_conv ex_flac = Inr ''/alt/b.mp3'' \<and>
   splitext ''/alt/b.mp3'' = (''/alt/b'', ''.mp3'') \<and>
   (\<exists>c1 cfg. parse_config ex_opts ex_cfg = Inr c1 \<and>
      ExternalConvert_init [''MP3'', ''ogg''] 320 False (\<lambda>f. (''ffmpeg'', f)) c1 = Inr cfg \<and>
      should_transcode cfg ex_flac = Inr True \<and> ext cfg = ''mp3'')"
proof -
  have f: "should_transcode ex_conv (ex_item None) = Inr False"
    by (simp add: should_transcode_def ex_conv_def ex_item_def lower_MP3)
  have t: "should_transcode ex_conv ex_flac = Inr True"
    by (simp add: should_transcode_def ex_conv_def ex_flac_def lower_FLAC)
  have d1: "External_destination ex_conv (ex_item None) = ''/alt/a.mp3''"
    by (simp add: External_destination_def ex_conv_def ex_cfg_def ex_item_def join_def
        basename_def cut_last_sep_def sep_def)
  have d2: "External_destination ex_conv ex_flac = ''/alt/b.flac''"
    by (simp add: External_destination_def ex_conv_def ex_cfg_def ex_flac_def join_def
        basename_def cut_last_sep_def sep_def)
  have s: "splitext ''/alt/b.flac'' = (''/alt/b'', ''.flac'')"
    by (simp add: splitext_def cut_last_sep_def sep_def extsep_def)
  have e: "ext ex_conv = ''mp3''"
    by (simp add: ex_conv_def)
  have h: "extsep \<notin> set (ext ex_conv) \<and> sep \<notin> set (ext ex_conv) \<and>
     \<not> list_all (\<lambda>c. c = extsep) (basename (fst (splitext (External_destination ex_conv ex_flac))))"
    by (simp add: e d2 s) (simp add: extsep_def sep_def basename_def cut_last_sep_def)
  from convert_destination_tracks_eligibility [OF ex_conv_kind, where it = "ex_item None"] f d1
  have 1: "destination ex_conv (ex_item None) = Inr ''/alt/a.mp3''"
    by simp
  from convert_destination_tracks_eligibility [OF ex_conv_kind, where it = ex_flac] t h
  have 2: "destination ex_conv ex_flac = Inr ''/alt/b.mp3'' \<and>
      splitext ''/alt/b.mp3'' = (''/alt/b'', ''.mp3'')"
    by (simp add: d2 s e)
  obtain c1 where c1: "parse_config ex_opts ex_cfg = Inr c1"
    by (simp add: parse_config_def ex_opts_def)
  obtain cfg where cfg: "ExternalConvert_init [''MP3'', ''ogg''] 320 False (\<lambda>f. (''ffmpeg'', f)) c1
      = Inr cfg"
    by (simp add: ExternalConvert_init_def)
  then have k: "kind cfg = ExternalConvert"
    by (auto simp: ExternalConvert_init_def)
  have o: "opt_convert_when ex_opts = None"
    by (simp add: ex_opts_def)
  from convert_destination_tracks_eligibility [OF k, where it = ex_flac and opts = ex_opts
      and base = ex_cfg and ?c1.0 = c1 and fmts = "[''MP3'', ''ogg'']" and mb = 320
      and emb = False and gf = "\<lambda>f. (''ffmpeg'', f)"] o c1 cfg
  have 3: "should_transcode cfg ex_flac = Inr True \<and> ext cfg = ''mp3''"
    by (simp add: lower_MP3)
  from f t d2 1 2 3 c1 cfg show ?thesis by blast
qed

end
